theory Spec2Isabelle
  imports Complex_Main "HOL-Library.Sublist"
begin

section \<open>The chat client of \<^verbatim>\<open>mest_chat_logging.py\<close>\<close>

text \<open>
  The program is sequential glue around three things it does not own: the clock
  (\<^verbatim>\<open>datetime.now()\<close>), the random identifiers (\<^verbatim>\<open>uuid.uuid4()\<close>), and the model backend
  behind the client handle. Each of them is an input of the embedding:
  \<^item> a call of \<^verbatim>\<open>chat\<close> receives the clock as a function from the number of readings already
    taken during the call to the reading;
  \<^item> the constructor receives the two identifiers and the process environment;
  \<^item> a call of \<^verbatim>\<open>chat\<close> receives the backend's behaviour for that call: for each request the
    code can issue, either the exception the request raises or the object it returns.

  Only exceptions derived from \<^verbatim>\<open>Exception\<close> are values of the model: they are what
  \<^verbatim>\<open>except Exception\<close> on line 115 catches. An interrupt delivered while \<^verbatim>\<open>chat\<close> runs is
  not an event of this sequential model.
\<close>

subsection \<open>Data\<close>

text \<open>A conversation entry is the dictionary \<^verbatim>\<open>{"role": ..., "content": ...}\<close> of lines 50-54, 70-73 and 107-112.\<close>

record message =
  role :: string
  content :: string

text \<open>
  A log entry is a dictionary handed to \<^verbatim>\<open>json.dumps\<close>; it is kept as the JSON value, with
  the keys in the order the source writes them. The serialisation to text is not modelled.
\<close>

datatype json =
    JNull
  | JStr string
  | JInt int
  | JNum rat
  | JObj "(string \<times> json) list"

fun field :: "string \<Rightarrow> json \<Rightarrow> json option" where
  "field k (JObj kvs) = map_of kvs k"
| "field k _ = None"

text \<open>
  A reading of the clock: its position on the time line in microseconds (the resolution
  of \<^verbatim>\<open>datetime\<close>) and its rendering by \<^verbatim>\<open>isoformat()\<close>.
\<close>

datatype datetime = Datetime (micros: int) (isoformat: string)

text \<open>\<^verbatim>\<open>(end_time - start_time).total_seconds()\<close>, as an exact rational; the rounding to a float is not modelled.\<close>

definition total_seconds :: "datetime \<Rightarrow> datetime \<Rightarrow> rat" where
  "total_seconds end_time start_time = of_int (micros end_time - micros start_time) / 1000000"

text \<open>An exception caught on line 115 is known to the code only through \<^verbatim>\<open>str(e)\<close>.\<close>

datatype py_exception = Exception (str: string)

text \<open>
  The handle returned by \<^verbatim>\<open>initialize_client\<close>. \<^verbatim>\<open>GenerativeModel\<close> carries the model
  identifier it was built with and the key given to \<^verbatim>\<open>genai.configure\<close>; \<^verbatim>\<open>OpenAI\<close> carries
  its \<^verbatim>\<open>base_url\<close> (absent when the library's default is used) and the key it was built
  with. A client of the second kind always has a key: the library's constructor raises
  when it finds none (see \<open>OpenAI_client\<close> below).
\<close>

datatype client =
    GenerativeModel (generative_model: string) (configured_key: "string option")
  | OpenAI (base_url: "string option") (api_key: string)

text \<open>
  Logging levels, with the numbers the \<^verbatim>\<open>logging\<close> module gives them. \<^verbatim>\<open>logger.info\<close> logs at
  \<^verbatim>\<open>INFO\<close>, \<^verbatim>\<open>logger.error\<close> at \<^verbatim>\<open>ERROR\<close>.
\<close>

datatype level = INFO | WARNING | ERROR

fun levelno :: "level \<Rightarrow> nat" where
  "levelno INFO = 20"
| "levelno WARNING = 30"
| "levelno ERROR = 40"

text \<open>
  \<^verbatim>\<open>setup_logging\<close> (lines 12-26) takes the logger named \<^verbatim>\<open>Chatbot\<close> and adds a file handler
  and a console handler to it. It sets no level, on the logger or on a handler, and nothing
  else in the file configures logging. The logger's own level is therefore unset and its
  effective level is the root logger's, which is \<^verbatim>\<open>WARNING\<close> in a process that does not
  configure it. A call on the logger reaches the handlers only when its level is at least
  the effective level (\<^verbatim>\<open>Logger.isEnabledFor\<close>).
\<close>

definition effective_level :: level where
  "effective_level = WARNING"

definition isEnabledFor :: "level \<Rightarrow> bool" where
  "isEnabledFor l = (levelno effective_level \<le> levelno l)"

text \<open>
  The instance, with two lists that follow its logger. \<open>logger\<close> is the list of calls
  made on \<^verbatim>\<open>self.logger\<close>, oldest first: the level of the call and the entry it was given.
  \<open>chatbot_logs\<close> is the list of records that passed the level test and went to the two
  handlers: the lines this instance has appended to \<^verbatim>\<open>chatbot_logs.json\<close>, which are also
  the lines it has printed on the console.
\<close>

record chatbot =
  logger :: "(level \<times> json) list"
  chatbot_logs :: "(level \<times> json) list"
  session_id :: string
  user_id :: string
  client :: client
  use_ollama :: bool
  use_gemini :: bool
  model_name :: string
  message :: "message list"

subsection \<open>The backend, as seen from \<^verbatim>\<open>chat\<close>\<close>

text \<open>
  The object returned by \<^verbatim>\<open>chat.completions.create\<close>: the message contents of its choices,
  and its \<^verbatim>\<open>usage\<close> attribute. Line 100 asks \<^verbatim>\<open>hasattr(response, 'usage')\<close>, so the attribute
  may be missing; when it is there it is either \<^verbatim>\<open>None\<close> (the library declares it optional),
  on which \<^verbatim>\<open>.total_tokens\<close> raises, or a usage object with its token count.
\<close>

datatype usage_attr = NoUsageAttr | UsageNone | CompletionUsage (total_tokens: int)

record chat_completion =
  choices :: "string list"
  usage :: usage_attr

text \<open>The object returned by \<^verbatim>\<open>send_message\<close>: reading \<^verbatim>\<open>.text\<close> raises or gives the text.\<close>

datatype generate_content_response = GenerateContentResponse (response_text: "py_exception + string")

datatype response = Generated generate_content_response | Completion chat_completion

text \<open>What the backend does during one call of \<^verbatim>\<open>chat\<close>, request by request.\<close>

record backend =
  start_chat :: "message list \<Rightarrow> py_exception option"
  send_message :: "string \<Rightarrow> py_exception + generate_content_response"
  create :: "string \<Rightarrow> message list \<Rightarrow> py_exception + chat_completion"

text \<open>The requests a call issues, in order.\<close>

datatype request =
    StartChat "message list"
  | SendMessage string
  | ChatCompletionsCreate string "message list"

subsection \<open>\<^verbatim>\<open>initialize_client\<close> and \<^verbatim>\<open>Chatbot.__init__\<close>\<close>

text \<open>
  The constructor \<^verbatim>\<open>OpenAI(base_url=..., api_key=...)\<close> of the client library, as far as the
  program meets it: given no key it looks for \<^verbatim>\<open>OPENAI_API_KEY\<close> in the environment, and
  with none there either it raises. \<^verbatim>\<open>genai.configure\<close> and \<^verbatim>\<open>genai.GenerativeModel\<close> accept
  a missing key; the generative backend then fails at the first request.
\<close>

definition OpenAI_client ::
  "(string \<Rightarrow> string option) \<Rightarrow> string option \<Rightarrow> string option \<Rightarrow> py_exception + client" where
  "OpenAI_client getenv base_url_arg api_key_arg =
     (case api_key_arg of
        Some k \<Rightarrow> Inr (OpenAI base_url_arg k)
      | None \<Rightarrow>
         (case getenv ''OPENAI_API_KEY'' of
            Some k \<Rightarrow> Inr (OpenAI base_url_arg k)
          | None \<Rightarrow>
              Inl (Exception (''The api_key client option must be set either by passing api_key '' @
                              ''to the client or by setting the OPENAI_API_KEY environment variable''))))"

text \<open>Lines 28-38. The last branch reads the variable \<^verbatim>\<open>OPEN_API_KEY\<close>, as the source spells it.\<close>

definition initialize_client ::
  "(string \<Rightarrow> string option) \<Rightarrow> bool \<Rightarrow> bool \<Rightarrow> py_exception + client" where
  "initialize_client getenv use_ollama_arg use_gemini_arg =
     (if use_gemini_arg then Inr (GenerativeModel ''gemini-2.5-flash'' (getenv ''GEMINI_API_KEY''))
      else if use_ollama_arg then
        OpenAI_client getenv (Some ''http://localhost:11434/v1'') (Some ''ollama'')
      else OpenAI_client getenv None (getenv ''OPEN_API_KEY''))"

definition system_message :: message where
  "system_message =
     \<lparr>role = ''system'',
      content = ''You are a helpful assistant that can answer questions and help with task.''\<rparr>"

text \<open>
  \<open>uuid1\<close> and \<open>uuid2\<close> are the texts of the two \<^verbatim>\<open>uuid.uuid4()\<close> draws of lines 43 and 44,
  \<open>getenv\<close> the environment as \<^verbatim>\<open>load_dotenv()\<close> of line 10 has left it.
  The instance starts with no call made on its logger and no record written. The program
  builds one instance per run (line 146), and the model follows one instance. When line 45
  raises, the constructor raises and there is no instance.
\<close>

definition Chatbot ::
  "(string \<Rightarrow> string option) \<Rightarrow> string \<Rightarrow> string \<Rightarrow> bool \<Rightarrow> bool \<Rightarrow> py_exception + chatbot" where
  "Chatbot getenv uuid1 uuid2 use_ollama_arg use_gemini_arg =
     (case initialize_client getenv use_ollama_arg use_gemini_arg of
        Inl e \<Rightarrow> Inl e
      | Inr c \<Rightarrow>
          Inr \<lparr>logger = [],
               chatbot_logs = [],
               session_id = uuid1,
               user_id = uuid2,
               client = c,
               use_ollama = use_ollama_arg,
               use_gemini = use_gemini_arg,
               model_name =
                 (if use_gemini_arg then ''gemini-1.5-flash''
                  else (if \<not> use_ollama_arg then ''gpt-4o-mini'' else ''llama3.2:8b'')),
               message = [system_message]\<rparr>)"

subsection \<open>\<^verbatim>\<open>Chatbot.chat\<close>\<close>

text \<open>The three dictionaries of lines 58-67, 90-104 and 116-126.\<close>

definition user_input_entry :: "datetime \<Rightarrow> chatbot \<Rightarrow> json" where
  "user_input_entry t self =
     JObj [(''timestamp'', JStr (isoformat t)),
           (''level'', JStr ''INFO''),
           (''type'', JStr ''user_input''),
           (''metadata'', JObj [(''user_id'', JStr (user_id self)),
                                (''session_id'', JStr (session_id self)),
                                (''model'', JStr (model_name self))])]"

definition model_response_entry :: "datetime \<Rightarrow> chatbot \<Rightarrow> string \<Rightarrow> rat \<Rightarrow> json \<Rightarrow> json" where
  "model_response_entry t self assistant_response response_time tokens =
     JObj [(''timestamp'', JStr (isoformat t)),
           (''level'', JStr ''INFO''),
           (''type'', JStr ''model_response''),
           (''model_response'', JStr assistant_response),
           (''metadata'', JObj [(''session_id'', JStr (session_id self)),
                                (''model'', JStr (model_name self)),
                                (''response_time'', JNum response_time),
                                (''tokens_used'', tokens)])]"

definition error_entry :: "datetime \<Rightarrow> chatbot \<Rightarrow> py_exception \<Rightarrow> json" where
  "error_entry t self e =
     JObj [(''timestamp'', JStr (isoformat t)),
           (''level'', JStr ''ERROR''),
           (''type'', JStr ''error''),
           (''error_message'', JStr (str e)),
           (''metadata'', JObj [(''session_id'', JStr (session_id self)),
                                (''model'', JStr (model_name self)),
                                (''user_id'', JStr (user_id self))])]"

text \<open>
  \<^verbatim>\<open>self.logger.info(json.dumps(log_entry))\<close> and \<^verbatim>\<open>self.logger.error(json.dumps(log_entry))\<close>:
  the call is made, and the record is written when the level is enabled.
\<close>

definition logger_info :: "json \<Rightarrow> chatbot \<Rightarrow> chatbot" where
  "logger_info entry self =
     self\<lparr>logger := logger self @ [(INFO, entry)],
          chatbot_logs :=
            (if isEnabledFor INFO then chatbot_logs self @ [(INFO, entry)] else chatbot_logs self)\<rparr>"

definition logger_error :: "json \<Rightarrow> chatbot \<Rightarrow> chatbot" where
  "logger_error entry self =
     self\<lparr>logger := logger self @ [(ERROR, entry)],
          chatbot_logs :=
            (if isEnabledFor ERROR then chatbot_logs self @ [(ERROR, entry)] else chatbot_logs self)\<rparr>"

text \<open>
  Lines 77-85: the requests issued, and either the exception raised or the reply text
  together with the response object. \<^verbatim>\<open>response.choices[0]\<close> raises \<^verbatim>\<open>IndexError\<close> on an
  empty list.
\<close>

definition dispatch ::
  "backend \<Rightarrow> chatbot \<Rightarrow> string \<Rightarrow> request list \<times> (py_exception + string \<times> response)" where
  "dispatch be self user_input =
     (if use_gemini self then
        (case start_chat be [] of
           Some e \<Rightarrow> ([StartChat []], Inl e)
         | None \<Rightarrow>
            (case send_message be user_input of
               Inl e \<Rightarrow> ([StartChat [], SendMessage user_input], Inl e)
             | Inr r \<Rightarrow>
                (case response_text r of
                   Inl e \<Rightarrow> ([StartChat [], SendMessage user_input], Inl e)
                 | Inr assistant_response \<Rightarrow>
                     ([StartChat [], SendMessage user_input],
                      Inr (assistant_response, Generated r)))))
      else
        (case create be (model_name self) (message self) of
           Inl e \<Rightarrow> ([ChatCompletionsCreate (model_name self) (message self)], Inl e)
         | Inr r \<Rightarrow>
            (case choices r of
               [] \<Rightarrow> ([ChatCompletionsCreate (model_name self) (message self)],
                      Inl (Exception ''list index out of range''))
             | c # _ \<Rightarrow> ([ChatCompletionsCreate (model_name self) (message self)],
                         Inr (c, Completion r)))))"

text \<open>
  Lines 99-102: \<^verbatim>\<open>response.usage.total_tokens if not self.use_gemini and hasattr(response, 'usage') else None\<close>.
  The response of the generative backend has no attribute of that name.
\<close>

definition tokens_used :: "chatbot \<Rightarrow> response \<Rightarrow> py_exception + json" where
  "tokens_used self r =
     (case r of
        Generated _ \<Rightarrow> Inr JNull
      | Completion c \<Rightarrow>
         (if \<not> use_gemini self then
            (case usage c of
               NoUsageAttr \<Rightarrow> Inr JNull
             | UsageNone \<Rightarrow>
                 Inl (Exception (CHR 0x27 # ''NoneType'' @ CHR 0x27 # '' object has no attribute '' @
                                 CHR 0x27 # ''total_tokens'' @ [CHR 0x27]))
             | CompletionUsage n \<Rightarrow> Inr (JInt n))
          else Inr JNull))"

text \<open>
  The body of \<^verbatim>\<open>try\<close> (lines 58-113). It gives the instance as it is when the block is left,
  the number of clock readings taken so far, the requests issued, and how the block was
  left: \<open>Inl e\<close> when \<open>e\<close> was raised, \<open>Inr r\<close> on \<^verbatim>\<open>return r\<close>. The entry of lines 90-104 is
  built (its timestamp read) before it is logged, so an exception in it leaves no record.
\<close>

definition chat_try ::
  "backend \<Rightarrow> (nat \<Rightarrow> datetime) \<Rightarrow> chatbot \<Rightarrow> string
     \<Rightarrow> chatbot \<times> nat \<times> request list \<times> (py_exception + string)" where
  "chat_try be now self user_input =
     (let self1 = logger_info (user_input_entry (now 0) self) self;
          self2 = self1\<lparr>message := message self1 @ [\<lparr>role = ''user'', content = user_input\<rparr>]\<rparr>;
          start_time = now 1
      in case dispatch be self2 user_input of
           (reqs, Inl e) \<Rightarrow> (self2, 2, reqs, Inl e)
         | (reqs, Inr (assistant_response, r)) \<Rightarrow>
            (let end_time = now 2;
                 response_time = total_seconds end_time start_time
             in case tokens_used self2 r of
                  Inl e \<Rightarrow> (self2, 4, reqs, Inl e)
                | Inr tokens \<Rightarrow>
                   (let self3 = logger_info
                          (model_response_entry (now 3) self2 assistant_response response_time tokens)
                          self2;
                        self4 = self3\<lparr>message := message self3 @
                                  [\<lparr>role = ''assistant'', content = assistant_response\<rparr>]\<rparr>
                    in (self4, 4, reqs, Inr assistant_response))))"

text \<open>The whole method: the value returned, the instance afterwards, the requests issued.\<close>

definition chat ::
  "backend \<Rightarrow> (nat \<Rightarrow> datetime) \<Rightarrow> chatbot \<Rightarrow> string \<Rightarrow> string \<times> chatbot \<times> request list" where
  "chat be now self user_input =
     (case chat_try be now self user_input of
        (self', k, reqs, Inr r) \<Rightarrow> (r, self', reqs)
      | (self', k, reqs, Inl e) \<Rightarrow>
          (''Sorry, something evil happened in the universe: '' @ str e,
           logger_error (error_entry (now k) self' e) self',
           reqs))"

subsection \<open>Observations of a call and of a sequence of calls\<close>

text \<open>
  The exception that leaves the \<^verbatim>\<open>try\<close> block of a call, if any. By \<open>chat_try\<close> it is raised
  by a request to the backend, by reading the reply out of the response
  (\<^verbatim>\<open>response.text\<close>, \<^verbatim>\<open>response.choices[0]\<close>) or by reading the token count out of it
  (\<^verbatim>\<open>response.usage.total_tokens\<close>); nothing else in the block raises in the model. A call
  succeeds when it leaves the block by \<^verbatim>\<open>return\<close>.
\<close>

definition raised :: "backend \<Rightarrow> (nat \<Rightarrow> datetime) \<Rightarrow> chatbot \<Rightarrow> string \<Rightarrow> py_exception option" where
  "raised be now self user_input =
     (case chat_try be now self user_input of
        (_, _, _, Inl e) \<Rightarrow> Some e
      | (_, _, _, Inr _) \<Rightarrow> None)"

definition succeeds :: "backend \<Rightarrow> (nat \<Rightarrow> datetime) \<Rightarrow> chatbot \<Rightarrow> string \<Rightarrow> bool" where
  "succeeds be now self user_input = (raised be now self user_input = None)"

text \<open>The three components of what \<open>chat\<close> gives.\<close>

definition reply :: "backend \<Rightarrow> (nat \<Rightarrow> datetime) \<Rightarrow> chatbot \<Rightarrow> string \<Rightarrow> string" where
  "reply be now self user_input = fst (chat be now self user_input)"

definition after :: "backend \<Rightarrow> (nat \<Rightarrow> datetime) \<Rightarrow> chatbot \<Rightarrow> string \<Rightarrow> chatbot" where
  "after be now self user_input = fst (snd (chat be now self user_input))"

definition requests :: "backend \<Rightarrow> (nat \<Rightarrow> datetime) \<Rightarrow> chatbot \<Rightarrow> string \<Rightarrow> request list" where
  "requests be now self user_input = snd (snd (chat be now self user_input))"

text \<open>
  The records a call hands to the logger, whether or not they are written: the calls past
  those that were made before.
\<close>

definition emitted :: "backend \<Rightarrow> (nat \<Rightarrow> datetime) \<Rightarrow> chatbot \<Rightarrow> string \<Rightarrow> (level \<times> json) list" where
  "emitted be now self user_input =
     drop (length (logger self)) (logger (after be now self user_input))"

text \<open>The records a call writes: those past the ones that were written before.\<close>

definition written :: "backend \<Rightarrow> (nat \<Rightarrow> datetime) \<Rightarrow> chatbot \<Rightarrow> string \<Rightarrow> (level \<times> json) list" where
  "written be now self user_input =
     drop (length (chatbot_logs self)) (chatbot_logs (after be now self user_input))"

definition of_type :: "string \<Rightarrow> level \<times> json \<Rightarrow> bool" where
  "of_type t r = (field ''type'' (snd r) = Some (JStr t))"

text \<open>The value under \<open>k\<close> in the \<^verbatim>\<open>metadata\<close> dictionary of a record.\<close>

definition metadata :: "string \<Rightarrow> level \<times> json \<Rightarrow> json option" where
  "metadata k r = (case field ''metadata'' (snd r) of Some m \<Rightarrow> field k m | None \<Rightarrow> None)"

text \<open>
  A turn is one call: the backend's behaviour during it, the clock during it, the input
  text. \<open>chats\<close> is the instance after a sequence of calls, \<open>replies\<close> what the calls
  returned, \<open>outcomes\<close> which of them succeeded.
\<close>

type_synonym turn = "backend \<times> (nat \<Rightarrow> datetime) \<times> string"

fun chats :: "chatbot \<Rightarrow> turn list \<Rightarrow> chatbot" where
  "chats self [] = self"
| "chats self ((be, now, user_input) # ts) = chats (after be now self user_input) ts"

fun replies :: "chatbot \<Rightarrow> turn list \<Rightarrow> string list" where
  "replies self [] = []"
| "replies self ((be, now, user_input) # ts) =
     reply be now self user_input # replies (after be now self user_input) ts"

fun outcomes :: "chatbot \<Rightarrow> turn list \<Rightarrow> bool list" where
  "outcomes self [] = []"
| "outcomes self ((be, now, user_input) # ts) =
     succeeds be now self user_input # outcomes (after be now self user_input) ts"

text \<open>
  The history the claims expect of successful calls: per call, the user's message and
  then the assistant's message with what the call returned.
\<close>

fun exchanges :: "turn list \<Rightarrow> string list \<Rightarrow> message list" where
  "exchanges ((be, now, user_input) # ts) (r # rs) =
     \<lparr>role = ''user'', content = user_input\<rparr> # \<lparr>role = ''assistant'', content = r\<rparr> # exchanges ts rs"
| "exchanges _ _ = []"

text \<open>A log entry without its \<^verbatim>\<open>timestamp\<close> key.\<close>

fun without_timestamp :: "json \<Rightarrow> json" where
  "without_timestamp (JObj kvs) = JObj (filter (\<lambda>kv. fst kv \<noteq> ''timestamp'') kvs)"
| "without_timestamp j = j"

subsection \<open>The menu of \<^verbatim>\<open>main\<close>\<close>

text \<open>
  \<^verbatim>\<open>str.strip()\<close> removes leading and trailing whitespace. A character is a code point
  below 256 here; these are the ones \<^verbatim>\<open>str.isspace\<close> accepts in that range.
\<close>

definition isspace :: "char \<Rightarrow> bool" where
  "isspace c =
     (let n = (of_char c :: nat)
      in (9 \<le> n \<and> n \<le> 13) \<or> (28 \<le> n \<and> n \<le> 32) \<or> n = 133 \<or> n = 160)"

definition strip :: "string \<Rightarrow> string" where
  "strip s = rev (dropWhile isspace (rev (dropWhile isspace s)))"

text \<open>
  Lines 137-141 over the lines that standard input still holds: the accepted choice and
  the lines left, or \<open>None\<close> when the input ends first (\<^verbatim>\<open>input\<close> raises \<^verbatim>\<open>EOFError\<close>, which
  \<^verbatim>\<open>main\<close> does not catch). What the loop prints is left out.
\<close>

fun read_choice :: "string list \<Rightarrow> (string \<times> string list) option" where
  "read_choice [] = None"
| "read_choice (l # ls) =
     (let choice = strip l
      in if choice \<in> set [''1'', ''2'', ''3''] then Some (choice, ls) else read_choice ls)"

text \<open>The test of line 139 on a line as read.\<close>

definition valid_choice :: "string \<Rightarrow> bool" where
  "valid_choice l = (strip l \<in> set [''1'', ''2'', ''3''])"



subsection \<open>The instance when the backend is called\<close>

text \<open>
  Lines 58-73 have run when line 75 is reached: the \<^verbatim>\<open>user_input\<close> record has been handed
  to the logger and the user's message is in the history. This is the instance \<open>dispatch\<close> sees.
\<close>

definition at_dispatch :: "(nat \<Rightarrow> datetime) \<Rightarrow> chatbot \<Rightarrow> string \<Rightarrow> chatbot" where
  "at_dispatch now self user_input =
     self\<lparr>logger := logger self @ [(INFO, user_input_entry (now 0) self)],
          message := message self @ [\<lparr>role = ''user'', content = user_input\<rparr>]\<rparr>"

subsection \<open>Backends, a clock and instances to run the code on\<close>

text \<open>
  A backend that answers every request with the text \<^verbatim>\<open>hi there\<close> and has no \<^verbatim>\<open>usage\<close>
  attribute, one that reports 42 tokens and offers two choices, one whose requests raise
  \<^verbatim>\<open>rate limited\<close>, and one whose completion has \<^verbatim>\<open>usage\<close> set to \<^verbatim>\<open>None\<close>; a clock that advances
  a quarter of a second per reading and one whose readings are unevenly spaced and print
  differently; the instances of menu choices 2 and 3 built in an empty environment.
\<close>

definition stub_backend :: backend where
  "stub_backend =
     \<lparr>start_chat = (\<lambda>_. None),
      send_message = (\<lambda>_. Inr (GenerateContentResponse (Inr ''hi there''))),
      create = (\<lambda>_ _. Inr \<lparr>choices = [''hi there''], usage = NoUsageAttr\<rparr>)\<rparr>"

definition metered_backend :: backend where
  "metered_backend =
     \<lparr>start_chat = (\<lambda>_. None),
      send_message = (\<lambda>_. Inr (GenerateContentResponse (Inr ''hi there''))),
      create = (\<lambda>_ _. Inr \<lparr>choices = [''hi there'', ''second choice''], usage = CompletionUsage 42\<rparr>)\<rparr>"

definition failing_backend :: backend where
  "failing_backend =
     \<lparr>start_chat = (\<lambda>_. None),
      send_message = (\<lambda>_. Inl (Exception ''rate limited'')),
      create = (\<lambda>_ _. Inl (Exception ''rate limited''))\<rparr>"

definition unmetered_backend :: backend where
  "unmetered_backend =
     \<lparr>start_chat = (\<lambda>_. None),
      send_message = (\<lambda>_. Inr (GenerateContentResponse (Inr ''hi there''))),
      create = (\<lambda>_ _. Inr \<lparr>choices = [''hi there''], usage = UsageNone\<rparr>)\<rparr>"

text \<open>The exception of line 99 on a \<^verbatim>\<open>usage\<close> that is \<^verbatim>\<open>None\<close>.\<close>

definition usage_none_error :: py_exception where
  "usage_none_error =
     Exception (CHR 0x27 # ''NoneType'' @ CHR 0x27 # '' object has no attribute '' @
                CHR 0x27 # ''total_tokens'' @ [CHR 0x27])"

definition tick :: "nat \<Rightarrow> datetime" where
  "tick k = Datetime (250000 * int k) ''2025-01-01T12:00:00''"

definition wall_clock :: "nat \<Rightarrow> datetime" where
  "wall_clock k =
     Datetime (1735732800000000 + 250000 * int (k * k))
       (if k = 0 then ''2025-01-01T12:00:00''
        else if k = 1 then ''2025-01-01T12:00:00.250000''
        else if k = 2 then ''2025-01-01T12:00:01''
        else if k = 3 then ''2025-01-01T12:00:02.250000''
        else ''2025-01-01T12:00:04'')"

definition local_bot :: chatbot where
  "local_bot =
     \<lparr>logger = [], chatbot_logs = [], session_id = ''session-1'', user_id = ''user-1'',
      client = OpenAI (Some ''http://localhost:11434/v1'') ''ollama'',
      use_ollama = True, use_gemini = False, model_name = ''llama3.2:8b'',
      message = [system_message]\<rparr>"

definition generative_bot :: chatbot where
  "generative_bot =
     \<lparr>logger = [], chatbot_logs = [], session_id = ''session-1'', user_id = ''user-1'',
      client = GenerativeModel ''gemini-2.5-flash'' None,
      use_ollama = False, use_gemini = True, model_name = ''gemini-1.5-flash'',
      message = [system_message]\<rparr>"


section \<open>Properties\<close>

subsection \<open>What a call leaves unchanged, and what it appends\<close>

lemmas call_defs = chat_def chat_try_def logger_info_def logger_error_def
  isEnabledFor_def effective_level_def
  raised_def succeeds_def reply_def after_def requests_def emitted_def

lemmas entry_defs = user_input_entry_def model_response_entry_def error_entry_def

lemma after_ids:
  "session_id (after be now self u) = session_id self"
  "user_id (after be now self u) = user_id self"
  "model_name (after be now self u) = model_name self"
  "use_gemini (after be now self u) = use_gemini self"
  "use_ollama (after be now self u) = use_ollama self"
  "client (after be now self u) = client self"
  by (simp_all add: call_defs Let_def split: prod.splits sum.splits)

lemma chats_ids:
  "session_id (chats self ts) = session_id self"
  "user_id (chats self ts) = user_id self"
  "model_name (chats self ts) = model_name self"
  "use_gemini (chats self ts) = use_gemini self"
  "use_ollama (chats self ts) = use_ollama self"
  "client (chats self ts) = client self"
  by (induction self ts rule: chats.induct; simp add: after_ids)+

lemma after_message:
  "message (after be now self u) =
     message self @ \<lparr>role = ''user'', content = u\<rparr> #
       (if succeeds be now self u then [\<lparr>role = ''assistant'', content = reply be now self u\<rparr>] else [])"
  by (simp add: call_defs Let_def split: prod.splits sum.splits)

lemma after_logger: "logger (after be now self u) = logger self @ emitted be now self u"
  by (simp add: call_defs Let_def split: prod.splits sum.splits)

lemma chatbot_logs_after:
  "chatbot_logs (after be now self u) =
     chatbot_logs self @ filter (\<lambda>r. fst r = ERROR) (emitted be now self u)"
  by (simp add: call_defs Let_def split: prod.splits sum.splits)

lemma written_eq: "written be now self u = filter (\<lambda>r. fst r = ERROR) (emitted be now self u)"
  by (simp add: written_def chatbot_logs_after)

lemma emitted_failure:
  assumes "raised be now self u = Some e"
  shows "\<exists>t. emitted be now self u =
           [(INFO, user_input_entry (now 0) self), (ERROR, error_entry t self e)]"
  using assms
  by (auto simp: call_defs entry_defs Let_def split: prod.splits sum.splits)

lemma reply_failure:
  assumes "raised be now self u = Some e"
  shows "reply be now self u = ''Sorry, something evil happened in the universe: '' @ str e"
  using assms
  by (auto simp: call_defs Let_def split: prod.splits sum.splits)

subsection \<open>The requests and the two ways out of the \<^verbatim>\<open>try\<close> block\<close>

lemma dispatch_requests:
  "fst (dispatch be self u) =
     (if use_gemini self then StartChat [] # (if start_chat be [] = None then [SendMessage u] else [])
      else [ChatCompletionsCreate (model_name self) (message self)])"
  by (simp add: dispatch_def split: option.splits sum.splits list.splits)

lemma dispatch_reply:
  assumes "dispatch be self u = (reqs, Inr (a, r))"
  shows "if use_gemini self
         then (\<exists>g. start_chat be [] = None \<and> send_message be u = Inr g \<and> response_text g = Inr a \<and> r = Generated g)
         else (\<exists>c cs. create be (model_name self) (message self) = Inr c \<and> choices c = a # cs \<and> r = Completion c)"
  using assms
  by (auto simp add: dispatch_def split: option.splits sum.splits list.splits if_splits)

lemma chat_try_unfold:
  "chat_try be now self u =
     (case dispatch be (at_dispatch now self u) u of
        (reqs, Inl e) \<Rightarrow> (at_dispatch now self u, 2, reqs, Inl e)
      | (reqs, Inr (a, r)) \<Rightarrow>
          (case tokens_used (at_dispatch now self u) r of
             Inl e \<Rightarrow> (at_dispatch now self u, 4, reqs, Inl e)
           | Inr tokens \<Rightarrow>
               ((at_dispatch now self u)
                  \<lparr>logger := logger (at_dispatch now self u) @
                     [(INFO, model_response_entry (now 3) (at_dispatch now self u) a
                               (total_seconds (now 2) (now 1)) tokens)],
                   message := message (at_dispatch now self u) @
                     [\<lparr>role = ''assistant'', content = a\<rparr>]\<rparr>,
                4, reqs, Inr a)))"
  by (simp add: chat_try_def at_dispatch_def logger_info_def isEnabledFor_def effective_level_def
      Let_def split: prod.splits sum.splits)

lemma raised_unfold:
  "raised be now self u =
     (case dispatch be (at_dispatch now self u) u of
        (reqs, Inl e) \<Rightarrow> Some e
      | (reqs, Inr (a, r)) \<Rightarrow>
          (case tokens_used (at_dispatch now self u) r of Inl e \<Rightarrow> Some e | Inr _ \<Rightarrow> None))"
  by (simp add: raised_def chat_try_unfold split: prod.splits sum.splits)

lemma tokens_used_Inr:
  assumes "tokens_used self r = Inr t"
  shows "t = (case r of
                Generated _ \<Rightarrow> JNull
              | Completion c \<Rightarrow>
                  (if use_gemini self then JNull
                   else (case usage c of CompletionUsage n \<Rightarrow> JInt n | _ \<Rightarrow> JNull)))"
  using assms
  by (auto simp: tokens_used_def split: response.splits usage_attr.splits if_splits)

lemma succeeds_dispatch:
  assumes "succeeds be now self u"
  obtains reqs r tokens where
    "dispatch be (at_dispatch now self u) u = (reqs, Inr (reply be now self u, r))"
    "tokens_used (at_dispatch now self u) r = Inr tokens"
    "emitted be now self u =
       [(INFO, user_input_entry (now 0) self),
        (INFO, model_response_entry (now 3) self (reply be now self u)
                 (total_seconds (now 2) (now 1)) tokens)]"
proof -
  obtain reqs res where d: "dispatch be (at_dispatch now self u) u = (reqs, res)"
    by (cases "dispatch be (at_dispatch now self u) u")
  show thesis
  proof (cases res)
    case (Inl e)
    with d assms show thesis
      by (simp add: succeeds_def raised_def chat_try_unfold)
  next
    case (Inr p)
    obtain a r where p: "p = (a, r)" by (cases p)
    show thesis
    proof (cases "tokens_used (at_dispatch now self u) r")
      case (Inl e)
      with d Inr p assms show thesis
        by (simp add: succeeds_def raised_def chat_try_unfold)
    next
      case tok: (Inr tokens)
      have "reply be now self u = a"
        using d Inr p tok by (simp add: reply_def chat_def chat_try_unfold)
      moreover have "emitted be now self u =
         [(INFO, user_input_entry (now 0) self),
          (INFO, model_response_entry (now 3) self a (total_seconds (now 2) (now 1)) tokens)]"
        using d Inr p tok
        by (simp add: emitted_def after_def chat_def chat_try_unfold at_dispatch_def entry_defs)
      ultimately show thesis
        using that d Inr p tok by simp
    qed
  qed
qed

lemma at_dispatch_fields:
  "use_gemini (at_dispatch now self u) = use_gemini self"
  "model_name (at_dispatch now self u) = model_name self"
  "message (at_dispatch now self u) = message self @ [\<lparr>role = ''user'', content = u\<rparr>]"
  by (simp_all add: at_dispatch_def)

lemma requests_eq: "requests be now self u = fst (dispatch be (at_dispatch now self u) u)"
  by (simp add: requests_def chat_def chat_try_unfold split: prod.splits sum.splits)

lemma emitted_cases:
  "(\<exists>tokens. succeeds be now self u \<and>
       emitted be now self u =
         [(INFO, user_input_entry (now 0) self),
          (INFO, model_response_entry (now 3) self (reply be now self u)
                   (total_seconds (now 2) (now 1)) tokens)])
   \<or> (\<exists>e t. raised be now self u = Some e \<and>
         emitted be now self u =
           [(INFO, user_input_entry (now 0) self), (ERROR, error_entry t self e)])"
proof (cases "raised be now self u")
  case None
  then have ok: "succeeds be now self u" by (simp add: succeeds_def)
  from ok show ?thesis
    by (rule succeeds_dispatch) (auto simp: ok)
next
  case (Some e)
  then show ?thesis
    using emitted_failure [OF Some] by auto
qed

lemma emitted_first:
  "\<exists>rest. emitted be now self u = (INFO, user_input_entry (now 0) self) # rest"
  using emitted_cases [of be now self u] by auto

lemma emitted_metadata:
  "list_all (\<lambda>r. metadata ''session_id'' r = Some (JStr (session_id self))
               \<and> metadata ''model'' r = Some (JStr (model_name self))
               \<and> metadata ''user_id'' r =
                    (if of_type ''model_response'' r then None else Some (JStr (user_id self))))
     (emitted be now self u)"
  using emitted_cases [of be now self u]
  by (auto simp: metadata_def of_type_def entry_defs)

subsection \<open>Sequences of calls\<close>

lemma messages_append_only: "prefix (message self) (message (chats self ts))"
proof (induction self ts rule: chats.induct)
  case (1 self)
  show ?case by simp
next
  case (2 self be now user_input ts)
  have "prefix (message self) (message (after be now self user_input))"
    by (simp add: after_message)
  with 2 show ?case
    by (auto intro: prefix_order.trans)
qed

lemma length_replies: "length (replies self ts) = length ts"
  by (induction self ts rule: replies.induct) simp_all

lemma length_exchanges: "length rs = length ts \<Longrightarrow> length (exchanges ts rs) = 2 * length ts"
  by (induction ts rs rule: exchanges.induct) simp_all

lemma messages_of_successes:
  "list_all (\<lambda>b. b) (outcomes self ts) \<Longrightarrow>
     message (chats self ts) = message self @ exchanges ts (replies self ts)"
proof (induction self ts rule: chats.induct)
  case (1 self)
  show ?case by simp
next
  case (2 self be now user_input ts)
  then show ?case
    by (simp add: after_message)
qed

lemma length_messages:
  "length (message (chats self ts)) =
     length (message self) + 2 * length (filter (\<lambda>b. b) (outcomes self ts))
       + length (filter (\<lambda>b. \<not> b) (outcomes self ts))"
  by (induction self ts rule: chats.induct) (simp_all add: after_message)

subsection \<open>The code on the example inputs\<close>

lemma local_bot_fields:
  "use_gemini local_bot = False" "use_ollama local_bot = True"
  "model_name local_bot = ''llama3.2:8b''" "message local_bot = [system_message]"
  "session_id local_bot = ''session-1''" "user_id local_bot = ''user-1''"
  "logger local_bot = []" "chatbot_logs local_bot = []"
  by (simp_all add: local_bot_def)

lemma generative_bot_fields:
  "use_gemini generative_bot = True"
  "model_name generative_bot = ''gemini-1.5-flash''" "message generative_bot = [system_message]"
  by (simp_all add: generative_bot_def)

lemma Chatbot_local: "Chatbot (\<lambda>_. None) ''session-1'' ''user-1'' True False = Inr local_bot"
  by (simp add: Chatbot_def initialize_client_def OpenAI_client_def local_bot_def)

lemma Chatbot_generative: "Chatbot (\<lambda>_. None) ''session-1'' ''user-1'' False True = Inr generative_bot"
  by (simp add: Chatbot_def initialize_client_def generative_bot_def)

lemma stub_succeeds: "\<not> use_gemini self \<Longrightarrow> succeeds stub_backend now self u"
  by (simp add: succeeds_def raised_def chat_try_unfold dispatch_def tokens_used_def stub_backend_def)

lemma stub_reply: "\<not> use_gemini self \<Longrightarrow> reply stub_backend now self u = ''hi there''"
  by (simp add: reply_def chat_def chat_try_unfold dispatch_def tokens_used_def stub_backend_def)

lemma metered_succeeds: "\<not> use_gemini self \<Longrightarrow> succeeds metered_backend now self u"
  by (simp add: succeeds_def raised_def chat_try_unfold dispatch_def tokens_used_def metered_backend_def)

lemma metered_reply: "\<not> use_gemini self \<Longrightarrow> reply metered_backend now self u = ''hi there''"
  by (simp add: reply_def chat_def chat_try_unfold dispatch_def tokens_used_def metered_backend_def)

lemma failing_raised:
  "\<not> use_gemini self \<Longrightarrow> raised failing_backend now self u = Some (Exception ''rate limited'')"
  by (simp add: raised_def chat_try_unfold dispatch_def failing_backend_def)

subsection \<open>What a call returns\<close>

lemma reply_unfold:
  "reply be now self u =
     (case dispatch be (at_dispatch now self u) u of
        (reqs, Inl e) \<Rightarrow> ''Sorry, something evil happened in the universe: '' @ str e
      | (reqs, Inr (a, r)) \<Rightarrow>
          (case tokens_used (at_dispatch now self u) r of
             Inl e \<Rightarrow> ''Sorry, something evil happened in the universe: '' @ str e
           | Inr _ \<Rightarrow> a))"
  by (simp add: reply_def chat_def chat_try_unfold split: prod.splits sum.splits)

lemma reply_generative:
  assumes "use_gemini self"
  shows "reply be now self u =
     (case start_chat be [] of
        Some e \<Rightarrow> ''Sorry, something evil happened in the universe: '' @ str e
      | None \<Rightarrow>
         (case send_message be u of
            Inl e \<Rightarrow> ''Sorry, something evil happened in the universe: '' @ str e
          | Inr g \<Rightarrow>
             (case response_text g of
                Inl e \<Rightarrow> ''Sorry, something evil happened in the universe: '' @ str e
              | Inr t \<Rightarrow> t)))"
  using assms
  by (simp add: reply_unfold dispatch_def tokens_used_def at_dispatch_fields
      split: option.splits sum.splits)

lemma reply_completion:
  assumes "\<not> use_gemini self"
  shows "reply be now self u =
     (case create be (model_name self) (message self @ [\<lparr>role = ''user'', content = u\<rparr>]) of
        Inl e \<Rightarrow> ''Sorry, something evil happened in the universe: '' @ str e
      | Inr c \<Rightarrow>
         (case choices c of
            [] \<Rightarrow> ''Sorry, something evil happened in the universe: list index out of range''
          | x # _ \<Rightarrow>
             (if usage c = UsageNone
              then ''Sorry, something evil happened in the universe: '' @ str usage_none_error
              else x)))"
  using assms
  by (simp add: reply_unfold dispatch_def tokens_used_def at_dispatch_fields usage_none_error_def
      split: sum.splits list.splits usage_attr.splits)

lemma unmetered_raised:
  "\<not> use_gemini self \<Longrightarrow> raised unmetered_backend now self u = Some usage_none_error"
  by (simp add: raised_unfold dispatch_def tokens_used_def at_dispatch_fields
      unmetered_backend_def usage_none_error_def)

section \<open>The claims\<close>

text \<open>
  Claim C1. The claim counts a call as successful when no exception is raised during
  dispatch or reply extraction, and says that the history then grows by the user's and the
  assistant's message. On the local instance, with a completion that has a first choice
  and \<^verbatim>\<open>usage\<close> set to \<^verbatim>\<open>None\<close>, dispatch and extraction return the reply \<^verbatim>\<open>hi there\<close>; the
  exception comes afterwards, at line 99, inside the same \<^verbatim>\<open>try\<close>. The assistant's message
  is never appended: after this one call the history has two elements, not three. What
  does hold for every sequence of calls is that the history is only appended to.
\<close>

theorem reply_extracted_but_not_appended:
  "Chatbot (\<lambda>_. None) ''session-1'' ''user-1'' True False = Inr local_bot
   \<and> dispatch unmetered_backend (at_dispatch tick local_bot ''hello'') ''hello'' =
       ([ChatCompletionsCreate ''llama3.2:8b'' [system_message, \<lparr>role = ''user'', content = ''hello''\<rparr>]],
        Inr (''hi there'', Completion \<lparr>choices = [''hi there''], usage = UsageNone\<rparr>))
   \<and> raised unmetered_backend tick local_bot ''hello'' = Some usage_none_error
   \<and> message (chats local_bot [(unmetered_backend, tick, ''hello'')]) =
       [system_message, \<lparr>role = ''user'', content = ''hello''\<rparr>]
   \<and> length (message (chats local_bot [(unmetered_backend, tick, ''hello'')])) = 2
   \<and> prefix (message self) (message (chats self ts))"
proof -
  have d: "dispatch unmetered_backend (at_dispatch tick local_bot ''hello'') ''hello'' =
       ([ChatCompletionsCreate ''llama3.2:8b'' [system_message, \<lparr>role = ''user'', content = ''hello''\<rparr>]],
        Inr (''hi there'', Completion \<lparr>choices = [''hi there''], usage = UsageNone\<rparr>))"
    by (simp add: dispatch_def at_dispatch_fields local_bot_fields unmetered_backend_def)
  have r: "raised unmetered_backend tick local_bot ''hello'' = Some usage_none_error"
    by (simp add: unmetered_raised local_bot_fields)
  have m: "message (chats local_bot [(unmetered_backend, tick, ''hello'')]) =
       [system_message, \<lparr>role = ''user'', content = ''hello''\<rparr>]"
    using r by (simp add: after_message succeeds_def local_bot_fields)
  from d r m show ?thesis
    by (simp add: Chatbot_local messages_append_only)
qed

text \<open>
  Claim C2. Both \<^verbatim>\<open>INFO\<close> records of a call are handed to a logger whose effective level is
  \<^verbatim>\<open>WARNING\<close>, so neither is written: what a call writes is the \<^verbatim>\<open>ERROR\<close> records among those
  it hands over. No \<^verbatim>\<open>user_input\<close> record and no \<^verbatim>\<open>model_response\<close> record is ever written; a
  call that succeeds writes nothing and a call that fails writes the \<^verbatim>\<open>error\<close> record alone.
  On the local instance, the call with the input \<^verbatim>\<open>hello\<close> answered \<^verbatim>\<open>hi there\<close> hands over
  two records and writes none.
\<close>

theorem info_records_are_not_written:
  "chatbot_logs (after be now self u) = chatbot_logs self @ written be now self u
   \<and> written be now self u = filter (\<lambda>r. fst r = ERROR) (emitted be now self u)
   \<and> filter (of_type ''user_input'') (written be now self u) = []
   \<and> filter (of_type ''model_response'') (written be now self u) = []
   \<and> length (filter (of_type ''error'') (written be now self u)) =
       (if succeeds be now self u then 0 else 1)
   \<and> length (emitted stub_backend tick local_bot ''hello'') = 2
   \<and> written stub_backend tick local_bot ''hello'' = []"
proof -
  have w: "written be now self u = filter (\<lambda>r. fst r = ERROR) (emitted be now self u)"
    by (rule written_eq)
  have a: "chatbot_logs (after be now self u) = chatbot_logs self @ written be now self u"
    by (simp add: w chatbot_logs_after)
  have f: "filter (of_type ''user_input'') (written be now self u) = []
     \<and> filter (of_type ''model_response'') (written be now self u) = []
     \<and> length (filter (of_type ''error'') (written be now self u)) =
         (if succeeds be now self u then 0 else 1)"
    using emitted_cases [of be now self u]
    by (auto simp: w of_type_def entry_defs succeeds_def)
  have s: "succeeds stub_backend tick local_bot ''hello''"
    by (simp add: stub_succeeds local_bot_fields)
  have e: "length (emitted stub_backend tick local_bot ''hello'') = 2"
    using emitted_cases [of stub_backend tick local_bot "''hello''"] by auto
  have "written stub_backend tick local_bot ''hello'' = []"
    using s emitted_cases [of stub_backend tick local_bot "''hello''"]
    by (auto simp: written_eq succeeds_def)
  with w a f e show ?thesis by simp
qed

text \<open>
  Claim C3. When an exception leaves the \<^verbatim>\<open>try\<close> block (raised by a request, or while the
  reply or the token count is read out of the response), \<^verbatim>\<open>chat\<close> still returns a text: the
  apology followed by \<^verbatim>\<open>str(e)\<close>. The call hands the logger the \<^verbatim>\<open>user_input\<close> record and then
  one record at level \<^verbatim>\<open>ERROR\<close> of type \<^verbatim>\<open>error\<close> with \<^verbatim>\<open>str(e)\<close>, the session id, the model name
  and the user id; that record is the one record the call writes. The history is the one
  before the call with the user's message appended.
\<close>

theorem failed_call_is_logged_and_answered:
  assumes "raised be now self u = Some e"
  shows "reply be now self u = ''Sorry, something evil happened in the universe: '' @ str e
   \<and> (\<exists>t. emitted be now self u =
         [(INFO, user_input_entry (now 0) self),
          (ERROR, JObj [(''timestamp'', JStr (isoformat t)),
                        (''level'', JStr ''ERROR''),
                        (''type'', JStr ''error''),
                        (''error_message'', JStr (str e)),
                        (''metadata'', JObj [(''session_id'', JStr (session_id self)),
                                             (''model'', JStr (model_name self)),
                                             (''user_id'', JStr (user_id self))])])])
   \<and> logger (after be now self u) = logger self @ emitted be now self u
   \<and> message (after be now self u) = message self @ [\<lparr>role = ''user'', content = u\<rparr>]
   \<and> written be now self u = filter (\<lambda>r. fst r = ERROR) (emitted be now self u)
   \<and> length (written be now self u) = 1"
  using emitted_failure [OF assms] reply_failure [OF assms] assms
  by (auto simp: after_logger after_message succeeds_def error_entry_def written_eq)

theorem failed_call_is_logged_and_answered_witness:
  "raised failing_backend tick local_bot ''hello'' = Some (Exception ''rate limited'')
   \<and> reply failing_backend tick local_bot ''hello'' =
       ''Sorry, something evil happened in the universe: rate limited''
   \<and> message (after failing_backend tick local_bot ''hello'') =
       [system_message, \<lparr>role = ''user'', content = ''hello''\<rparr>]
   \<and> length (written failing_backend tick local_bot ''hello'') = 1"
proof -
  have h: "raised failing_backend tick local_bot ''hello'' = Some (Exception ''rate limited'')"
    by (simp add: failing_raised local_bot_fields)
  from failed_call_is_logged_and_answered [OF h]
  have "reply failing_backend tick local_bot ''hello'' =
          ''Sorry, something evil happened in the universe: '' @ str (Exception ''rate limited'')"
    and "message (after failing_backend tick local_bot ''hello'') =
          message local_bot @ [\<lparr>role = ''user'', content = ''hello''\<rparr>]"
    and "length (written failing_backend tick local_bot ''hello'') = 1"
    by blast+
  with h show ?thesis
    by (simp add: local_bot_fields)
qed

text \<open>
  Claim C4. Neither identifier changes over any sequence of calls, and every record a call
  hands to the logger carries the session id. The user id is carried by the \<^verbatim>\<open>user_input\<close> and \<^verbatim>\<open>error\<close>
  records only: the \<^verbatim>\<open>metadata\<close> of a \<^verbatim>\<open>model_response\<close> record (lines 95-103) has no
  \<^verbatim>\<open>user_id\<close> key, as the records of one successful call on the local instance show.
\<close>

theorem model_response_record_lacks_user_id:
  "session_id (chats self ts) = session_id self
   \<and> user_id (chats self ts) = user_id self
   \<and> list_all (\<lambda>r. metadata ''session_id'' r = Some (JStr (session_id self))) (emitted be now self u)
   \<and> list_all (\<lambda>r. metadata ''user_id'' r =
                      (if of_type ''model_response'' r then None else Some (JStr (user_id self))))
        (emitted be now self u)
   \<and> emitted stub_backend tick local_bot ''hello'' =
        [(INFO, JObj [(''timestamp'', JStr ''2025-01-01T12:00:00''),
                      (''level'', JStr ''INFO''),
                      (''type'', JStr ''user_input''),
                      (''metadata'', JObj [(''user_id'', JStr ''user-1''),
                                           (''session_id'', JStr ''session-1''),
                                           (''model'', JStr ''llama3.2:8b'')])]),
         (INFO, JObj [(''timestamp'', JStr ''2025-01-01T12:00:00''),
                      (''level'', JStr ''INFO''),
                      (''type'', JStr ''model_response''),
                      (''model_response'', JStr ''hi there''),
                      (''metadata'', JObj [(''session_id'', JStr ''session-1''),
                                           (''model'', JStr ''llama3.2:8b''),
                                           (''response_time'', JNum (1 / 4)),
                                           (''tokens_used'', JNull)])])]
   \<and> Chatbot (\<lambda>_. None) ''session-1'' ''user-1'' True False = Inr local_bot"
proof -
  have "emitted stub_backend tick local_bot ''hello'' =
        [(INFO, JObj [(''timestamp'', JStr ''2025-01-01T12:00:00''),
                      (''level'', JStr ''INFO''),
                      (''type'', JStr ''user_input''),
                      (''metadata'', JObj [(''user_id'', JStr ''user-1''),
                                           (''session_id'', JStr ''session-1''),
                                           (''model'', JStr ''llama3.2:8b'')])]),
         (INFO, JObj [(''timestamp'', JStr ''2025-01-01T12:00:00''),
                      (''level'', JStr ''INFO''),
                      (''type'', JStr ''model_response''),
                      (''model_response'', JStr ''hi there''),
                      (''metadata'', JObj [(''session_id'', JStr ''session-1''),
                                           (''model'', JStr ''llama3.2:8b''),
                                           (''response_time'', JNum (1 / 4)),
                                           (''tokens_used'', JNull)])])]"
    by (simp add: call_defs dispatch_def tokens_used_def entry_defs local_bot_def stub_backend_def
        tick_def total_seconds_def Let_def)
  moreover have "list_all (\<lambda>r. metadata ''session_id'' r = Some (JStr (session_id self))) (emitted be now self u)"
    and "list_all (\<lambda>r. metadata ''user_id'' r =
                      (if of_type ''model_response'' r then None else Some (JStr (user_id self))))
        (emitted be now self u)"
    using emitted_metadata [of self be now u] by (simp_all add: list_all_iff)
  ultimately show ?thesis
    by (simp add: chats_ids Chatbot_local)
qed

text \<open>
  Claim C5. With \<^verbatim>\<open>use_gemini\<close> the handle is built for \<^verbatim>\<open>gemini-2.5-flash\<close> (line 32) while
  the name the instance reports and logs is \<^verbatim>\<open>gemini-1.5-flash\<close> (line 48): the two differ,
  and every record of every call carries the second. Without \<^verbatim>\<open>use_gemini\<close> the name logged
  is the \<^verbatim>\<open>model\<close> argument of the request.
\<close>

theorem gemini_handle_and_logged_name_differ:
  "Chatbot getenv uuid1 uuid2 uo True =
     Inr \<lparr>logger = [], chatbot_logs = [], session_id = uuid1, user_id = uuid2,
          client = GenerativeModel ''gemini-2.5-flash'' (getenv ''GEMINI_API_KEY''),
          use_ollama = uo, use_gemini = True, model_name = ''gemini-1.5-flash'',
          message = [system_message]\<rparr>
   \<and> (Chatbot getenv uuid1 uuid2 uo True = Inr g \<longrightarrow>
        client g = GenerativeModel ''gemini-2.5-flash'' (getenv ''GEMINI_API_KEY'')
        \<and> model_name g = ''gemini-1.5-flash''
        \<and> generative_model (client g) \<noteq> model_name g
        \<and> list_all (\<lambda>r. metadata ''model'' r = Some (JStr ''gemini-1.5-flash''))
             (emitted be now (chats g ts) u))
   \<and> (Chatbot getenv uuid1 uuid2 uo False = Inr c \<longrightarrow>
        requests be now (chats c ts) u =
          [ChatCompletionsCreate (model_name c)
             (message (chats c ts) @ [\<lparr>role = ''user'', content = u\<rparr>])]
        \<and> list_all (\<lambda>r. metadata ''model'' r = Some (JStr (model_name c)))
             (emitted be now (chats c ts) u))"
proof -
  have logged: "list_all (\<lambda>r. metadata ''model'' r = Some (JStr (model_name s))) (emitted be now s u)" for s
    using emitted_metadata [of s be now u] by (simp add: list_all_iff)
  have built: "Chatbot getenv uuid1 uuid2 uo True =
     Inr \<lparr>logger = [], chatbot_logs = [], session_id = uuid1, user_id = uuid2,
          client = GenerativeModel ''gemini-2.5-flash'' (getenv ''GEMINI_API_KEY''),
          use_ollama = uo, use_gemini = True, model_name = ''gemini-1.5-flash'',
          message = [system_message]\<rparr>"
    by (simp add: Chatbot_def initialize_client_def)
  have generative: "client g = GenerativeModel ''gemini-2.5-flash'' (getenv ''GEMINI_API_KEY'')
        \<and> model_name g = ''gemini-1.5-flash''
        \<and> generative_model (client g) \<noteq> model_name g
        \<and> list_all (\<lambda>r. metadata ''model'' r = Some (JStr ''gemini-1.5-flash''))
             (emitted be now (chats g ts) u)"
    if "Chatbot getenv uuid1 uuid2 uo True = Inr g"
    using that built logged [of "chats g ts"] by (auto simp: chats_ids)
  have completion: "requests be now (chats c ts) u =
          [ChatCompletionsCreate (model_name c)
             (message (chats c ts) @ [\<lparr>role = ''user'', content = u\<rparr>])]
        \<and> list_all (\<lambda>r. metadata ''model'' r = Some (JStr (model_name c)))
             (emitted be now (chats c ts) u)"
    if "Chatbot getenv uuid1 uuid2 uo False = Inr c"
  proof -
    from that have "\<not> use_gemini c"
      by (auto simp: Chatbot_def split: sum.splits)
    with logged [of "chats c ts"] show ?thesis
      by (simp add: chats_ids requests_eq dispatch_requests at_dispatch_fields)
  qed
  from built generative completion show ?thesis by blast
qed

theorem gemini_handle_and_logged_name_differ_witness:
  "Chatbot (\<lambda>_. None) ''session-1'' ''user-1'' False True = Inr generative_bot
   \<and> generative_model (client generative_bot) = ''gemini-2.5-flash''
   \<and> model_name generative_bot = ''gemini-1.5-flash''
   \<and> list_all (\<lambda>r. metadata ''model'' r = Some (JStr ''gemini-1.5-flash''))
        (emitted stub_backend tick generative_bot ''hello'')
   \<and> Chatbot (\<lambda>_. None) ''session-1'' ''user-1'' True False = Inr local_bot
   \<and> requests stub_backend tick local_bot ''hello'' =
        [ChatCompletionsCreate ''llama3.2:8b''
           [system_message, \<lparr>role = ''user'', content = ''hello''\<rparr>]]"
  using Chatbot_generative Chatbot_local
    gemini_handle_and_logged_name_differ
      [where getenv = "\<lambda>_. None" and ?uuid1.0 = "''session-1''" and ?uuid2.0 = "''user-1''"
         and uo = False and g = generative_bot and be = stub_backend and now = tick
         and ts = "[]" and u = "''hello''"]
    gemini_handle_and_logged_name_differ
      [where getenv = "\<lambda>_. None" and ?uuid1.0 = "''session-1''" and ?uuid2.0 = "''user-1''"
         and uo = True and c = local_bot and be = stub_backend and now = tick
         and ts = "[]" and u = "''hello''"]
  by (simp add: local_bot_fields)

text \<open>
  Claim C6. The requests are as the claim says, on every call: with \<^verbatim>\<open>use_gemini\<close> a chat
  opened with the empty history and then, unless that raised, the input text alone;
  otherwise one request with the model name and the whole history including the user's
  message just appended. The value returned is the text of the response on the generative
  instance, and the apology when a step raised. On the others it is the apology when the
  request raised or gave no choice, and the content of the first choice otherwise, except
  when the response's \<^verbatim>\<open>usage\<close> is \<^verbatim>\<open>None\<close>: then the first choice is there and the apology
  is returned. On the local instance, the backend answers \<^verbatim>\<open>hi there\<close> with such a response
  and \<^verbatim>\<open>chat\<close> returns the apology.
\<close>

theorem first_choice_not_returned_when_usage_is_none:
  "requests be now self u =
     (if use_gemini self
      then StartChat [] # (if start_chat be [] = None then [SendMessage u] else [])
      else [ChatCompletionsCreate (model_name self)
              (message self @ [\<lparr>role = ''user'', content = u\<rparr>])])
   \<and> reply be now self u =
     (if use_gemini self then
        (case start_chat be [] of
           Some e \<Rightarrow> ''Sorry, something evil happened in the universe: '' @ str e
         | None \<Rightarrow>
            (case send_message be u of
               Inl e \<Rightarrow> ''Sorry, something evil happened in the universe: '' @ str e
             | Inr g \<Rightarrow>
                (case response_text g of
                   Inl e \<Rightarrow> ''Sorry, something evil happened in the universe: '' @ str e
                 | Inr t \<Rightarrow> t)))
      else
        (case create be (model_name self) (message self @ [\<lparr>role = ''user'', content = u\<rparr>]) of
           Inl e \<Rightarrow> ''Sorry, something evil happened in the universe: '' @ str e
         | Inr c \<Rightarrow>
            (case choices c of
               [] \<Rightarrow> ''Sorry, something evil happened in the universe: list index out of range''
             | x # _ \<Rightarrow>
                (if usage c = UsageNone
                 then ''Sorry, something evil happened in the universe: '' @ str usage_none_error
                 else x))))
   \<and> requests unmetered_backend tick local_bot ''hello'' =
       [ChatCompletionsCreate ''llama3.2:8b''
          [system_message, \<lparr>role = ''user'', content = ''hello''\<rparr>]]
   \<and> create unmetered_backend ''llama3.2:8b''
         [system_message, \<lparr>role = ''user'', content = ''hello''\<rparr>] =
       Inr \<lparr>choices = [''hi there''], usage = UsageNone\<rparr>
   \<and> reply unmetered_backend tick local_bot ''hello'' =
       ''Sorry, something evil happened in the universe: '' @ str usage_none_error
   \<and> reply unmetered_backend tick local_bot ''hello'' \<noteq> ''hi there''"
proof -
  have q: "requests be now self u =
     (if use_gemini self
      then StartChat [] # (if start_chat be [] = None then [SendMessage u] else [])
      else [ChatCompletionsCreate (model_name self)
              (message self @ [\<lparr>role = ''user'', content = u\<rparr>])])" for be now self u
    by (simp add: requests_eq dispatch_requests at_dispatch_fields)
  have c: "create unmetered_backend x y = Inr \<lparr>choices = [''hi there''], usage = UsageNone\<rparr>" for x y
    by (simp add: unmetered_backend_def)
  have r: "reply unmetered_backend tick local_bot ''hello'' =
       ''Sorry, something evil happened in the universe: '' @ str usage_none_error"
    by (simp add: reply_completion local_bot_fields c)
  have n: "reply unmetered_backend tick local_bot ''hello'' \<noteq> ''hi there''"
    by (simp add: r)
  show ?thesis
  proof (cases "use_gemini self")
    case True
    with q [of be now self u] q [of unmetered_backend tick local_bot "''hello''"] c r n
    show ?thesis
      by (simp add: reply_generative local_bot_fields)
  next
    case False
    with q [of be now self u] q [of unmetered_backend tick local_bot "''hello''"] c r n
    show ?thesis
      by (simp add: reply_completion local_bot_fields)
  qed
qed

text \<open>
  Claim C7. A record of type \<^verbatim>\<open>model_response\<close> is handed to the logger only by a call that
  succeeds, and such a call hands over one. It is at level \<^verbatim>\<open>INFO\<close> and carries the text the
  call returns, the session id, the model name, the reading of the clock after the
  dispatch minus the reading before it, in seconds, and under \<^verbatim>\<open>tokens_used\<close> the token count of the response's usage when the
  instance is not generative and the response has one, \<^verbatim>\<open>null\<close> otherwise.
\<close>

theorem model_response_record:
  "(\<forall>r \<in> set (emitted be now self u). of_type ''model_response'' r \<longrightarrow>
      succeeds be now self u \<and>
      r = (INFO,
           JObj [(''timestamp'', JStr (isoformat (now 3))),
                 (''level'', JStr ''INFO''),
                 (''type'', JStr ''model_response''),
                 (''model_response'', JStr (reply be now self u)),
                 (''metadata'',
                    JObj [(''session_id'', JStr (session_id self)),
                          (''model'', JStr (model_name self)),
                          (''response_time'', JNum (of_int (micros (now 2) - micros (now 1)) / 1000000)),
                          (''tokens_used'',
                             (if use_gemini self then JNull
                              else (case create be (model_name self)
                                           (message self @ [\<lparr>role = ''user'', content = u\<rparr>]) of
                                      Inl _ \<Rightarrow> JNull
                                    | Inr c \<Rightarrow>
                                       (case usage c of
                                          CompletionUsage n \<Rightarrow> JInt n
                                        | _ \<Rightarrow> JNull))))])]))
   \<and> (succeeds be now self u \<longrightarrow>
        (\<exists>r \<in> set (emitted be now self u). of_type ''model_response'' r))"
proof (cases "raised be now self u")
  case (Some e)
  then show ?thesis
    using emitted_failure [OF Some]
    by (auto simp: succeeds_def of_type_def entry_defs)
next
  case None
  then have ok: "succeeds be now self u" by (simp add: succeeds_def)
  from ok obtain reqs r tokens where
    d: "dispatch be (at_dispatch now self u) u = (reqs, Inr (reply be now self u, r))" and
    t: "tokens_used (at_dispatch now self u) r = Inr tokens" and
    e: "emitted be now self u =
       [(INFO, user_input_entry (now 0) self),
        (INFO, model_response_entry (now 3) self (reply be now self u)
                 (total_seconds (now 2) (now 1)) tokens)]"
    by (rule succeeds_dispatch)
  have "tokens =
     (if use_gemini self then JNull
      else (case create be (model_name self) (message self @ [\<lparr>role = ''user'', content = u\<rparr>]) of
              Inl _ \<Rightarrow> JNull
            | Inr c \<Rightarrow> (case usage c of CompletionUsage n \<Rightarrow> JInt n | _ \<Rightarrow> JNull)))"
    using dispatch_reply [OF d] tokens_used_Inr [OF t]
    by (auto simp: at_dispatch_fields split: if_splits)
  with e ok show ?thesis
    by (simp add: of_type_def entry_defs total_seconds_def)
qed

theorem model_response_record_witness:
  "\<exists>r \<in> set (emitted metered_backend wall_clock local_bot ''hello'').
      of_type ''model_response'' r
    \<and> r = (INFO,
           JObj [(''timestamp'', JStr ''2025-01-01T12:00:02.250000''),
                 (''level'', JStr ''INFO''),
                 (''type'', JStr ''model_response''),
                 (''model_response'', JStr ''hi there''),
                 (''metadata'',
                    JObj [(''session_id'', JStr ''session-1''),
                          (''model'', JStr ''llama3.2:8b''),
                          (''response_time'', JNum (3 / 4)),
                          (''tokens_used'', JInt 42)])])"
proof -
  have s: "succeeds metered_backend wall_clock local_bot ''hello''"
    by (simp add: metered_succeeds local_bot_fields)
  have r: "reply metered_backend wall_clock local_bot ''hello'' = ''hi there''"
    by (simp add: metered_reply local_bot_fields)
  have c: "create metered_backend x y =
             Inr \<lparr>choices = [''hi there'', ''second choice''], usage = CompletionUsage 42\<rparr>" for x y
    by (simp add: metered_backend_def)
  have t: "isoformat (wall_clock 3) = ''2025-01-01T12:00:02.250000''"
    by (simp add: wall_clock_def)
  have d: "micros (wall_clock 2) = 1735732801000000" "micros (wall_clock (Suc 0)) = 1735732800250000"
    by (simp_all add: wall_clock_def)
  from model_response_record [of metered_backend wall_clock local_bot "''hello''"] s
  obtain x where x: "x \<in> set (emitted metered_backend wall_clock local_bot ''hello'')"
    "of_type ''model_response'' x" by blast
  with model_response_record [of metered_backend wall_clock local_bot "''hello''"]
  have "x = (INFO,
           JObj [(''timestamp'', JStr ''2025-01-01T12:00:02.250000''),
                 (''level'', JStr ''INFO''),
                 (''type'', JStr ''model_response''),
                 (''model_response'', JStr ''hi there''),
                 (''metadata'',
                    JObj [(''session_id'', JStr ''session-1''),
                          (''model'', JStr ''llama3.2:8b''),
                          (''response_time'', JNum (3 / 4)),
                          (''tokens_used'', JInt 42)])])"
    by (auto simp: r c t d local_bot_fields)
  with x show ?thesis by blast
qed

text \<open>
  Claim C8. The first record of every call is the \<^verbatim>\<open>user_input\<close> record: timestamp, level,
  type, and the user id, session id and model name of the instance. For two calls on the
  same instance, the second after any number of calls in between, with any inputs,
  backends and clocks, the two records are equal once the timestamp is removed.
\<close>

theorem user_input_record_ignores_input:
  "\<exists>e1 rest1 e2 rest2.
      emitted be1 now1 self u1 = (INFO, e1) # rest1
    \<and> emitted be2 now2 (chats self ts) u2 = (INFO, e2) # rest2
    \<and> e1 = JObj [(''timestamp'', JStr (isoformat (now1 0))),
                  (''level'', JStr ''INFO''),
                  (''type'', JStr ''user_input''),
                  (''metadata'', JObj [(''user_id'', JStr (user_id self)),
                                       (''session_id'', JStr (session_id self)),
                                       (''model'', JStr (model_name self))])]
    \<and> e2 = JObj [(''timestamp'', JStr (isoformat (now2 0))),
                  (''level'', JStr ''INFO''),
                  (''type'', JStr ''user_input''),
                  (''metadata'', JObj [(''user_id'', JStr (user_id self)),
                                       (''session_id'', JStr (session_id self)),
                                       (''model'', JStr (model_name self))])]
    \<and> without_timestamp e1 = without_timestamp e2"
proof -
  obtain rest1 where 1: "emitted be1 now1 self u1 = (INFO, user_input_entry (now1 0) self) # rest1"
    using emitted_first by blast
  obtain rest2 where 2:
    "emitted be2 now2 (chats self ts) u2 = (INFO, user_input_entry (now2 0) (chats self ts)) # rest2"
    using emitted_first by blast
  show ?thesis
    using 1 2 by (simp add: user_input_entry_def chats_ids)
qed






text \<open>
  Claim C10. After any sequence of calls on a freshly constructed instance, of which \<open>S\<close>
  succeed and \<open>F\<close> fail, the history has length \<open>1 + 2 * S + F\<close>: a call that succeeds
  appends the user's message and the assistant's message, a call that fails appends the
  user's message alone.
\<close>

theorem history_length_by_outcomes:
  "(Chatbot getenv uuid1 uuid2 uo ug = Inr self0 \<longrightarrow>
      length (message (chats self0 ts)) =
        1 + 2 * length (filter (\<lambda>b. b) (outcomes self0 ts))
          + length (filter (\<lambda>b. \<not> b) (outcomes self0 ts)))
   \<and> message (after be now self u) =
       message self @
         (if succeeds be now self u
          then [\<lparr>role = ''user'', content = u\<rparr>, \<lparr>role = ''assistant'', content = reply be now self u\<rparr>]
          else [\<lparr>role = ''user'', content = u\<rparr>])"
proof -
  have "length (message self0) = 1" if "Chatbot getenv uuid1 uuid2 uo ug = Inr self0"
    using that by (auto simp: Chatbot_def split: sum.splits)
  then show ?thesis
    using length_messages [of self0 ts]
    by (simp add: after_message)
qed

theorem history_length_by_outcomes_witness:
  "Chatbot (\<lambda>_. None) ''session-1'' ''user-1'' True False = Inr local_bot
   \<and> outcomes local_bot [(stub_backend, tick, ''hello''), (failing_backend, tick, ''again'')] =
       [True, False]
   \<and> length (message (chats local_bot
        [(stub_backend, tick, ''hello''), (failing_backend, tick, ''again'')])) = 4"
proof -
  have s1: "succeeds stub_backend tick local_bot ''hello''"
    by (simp add: stub_succeeds local_bot_fields)
  have s2: "\<not> succeeds failing_backend tick (after stub_backend tick local_bot ''hello'') ''again''"
    by (simp add: succeeds_def failing_raised after_ids local_bot_fields)
  have o: "outcomes local_bot [(stub_backend, tick, ''hello''), (failing_backend, tick, ''again'')] =
       [True, False]"
    using s1 s2 by simp
  from Chatbot_local o
    history_length_by_outcomes
      [of "\<lambda>_. None" "''session-1''" "''user-1''" True False local_bot
          "[(stub_backend, tick, ''hello''), (failing_backend, tick, ''again'')]"]
  show ?thesis by (simp add: local_bot_fields)
qed

section \<open>Further properties\<close>

text \<open>
  Every call hands two records to the logger: the \<^verbatim>\<open>user_input\<close> record and then either
  the \<^verbatim>\<open>model_response\<close> record or the \<^verbatim>\<open>error\<close> record.
\<close>

theorem two_records_handed_to_logger:
  "logger (after be now self u) = logger self @ emitted be now self u
   \<and> length (filter (of_type ''user_input'') (emitted be now self u)) = 1
   \<and> length (filter (\<lambda>r. of_type ''model_response'' r \<or> of_type ''error'' r) (emitted be now self u)) = 1
   \<and> (length (filter (of_type ''model_response'') (emitted be now self u)) = 1 \<and>
        length (filter (of_type ''error'') (emitted be now self u)) = 0
      \<or> length (filter (of_type ''model_response'') (emitted be now self u)) = 0 \<and>
        length (filter (of_type ''error'') (emitted be now self u)) = 1)"
  using emitted_cases [of be now self u]
  by (auto simp: after_logger of_type_def entry_defs)

text \<open>
  Where a call fails: the exception that leaves the \<^verbatim>\<open>try\<close> block is the one raised by
  \<^verbatim>\<open>start_chat\<close>, by \<^verbatim>\<open>send_message\<close> or by reading \<^verbatim>\<open>.text\<close> on the generative instance; on
  the others it is the one raised by \<^verbatim>\<open>create\<close>, the \<^verbatim>\<open>IndexError\<close> of an empty list of
  choices, or the \<^verbatim>\<open>AttributeError\<close> of reading \<^verbatim>\<open>total_tokens\<close> off a \<^verbatim>\<open>usage\<close> that is \<^verbatim>\<open>None\<close>.
  There is no other.
\<close>

theorem where_a_call_fails:
  "raised be now self u = Some e \<longleftrightarrow>
     (if use_gemini self then
        start_chat be [] = Some e \<or>
        start_chat be [] = None \<and>
          (send_message be u = Inl e \<or>
           (\<exists>r. send_message be u = Inr r \<and> response_text r = Inl e))
      else
        create be (model_name self) (message self @ [\<lparr>role = ''user'', content = u\<rparr>]) = Inl e \<or>
        (\<exists>r. create be (model_name self) (message self @ [\<lparr>role = ''user'', content = u\<rparr>]) = Inr r \<and>
           (if choices r = [] then e = Exception ''list index out of range''
            else usage r = UsageNone \<and>
                 e = Exception (CHR 0x27 # ''NoneType'' @ CHR 0x27 # '' object has no attribute '' @
                                CHR 0x27 # ''total_tokens'' @ [CHR 0x27]))))"
proof (cases "use_gemini self")
  case True
  then show ?thesis
    by (simp add: raised_unfold dispatch_def tokens_used_def at_dispatch_fields
        split: option.splits sum.splits)
next
  case False
  then show ?thesis
    by (auto simp add: raised_unfold dispatch_def tokens_used_def at_dispatch_fields
        split: sum.splits list.splits usage_attr.splits)
qed

text \<open>
  After a failed call on an instance that is not generative, the next request carries the
  unanswered input: the history sent ends with the two user messages in a row.
\<close>

theorem unanswered_input_stays_in_context:
  assumes "\<not> use_gemini self" and "raised be1 now1 self u1 = Some e"
  shows "requests be2 now2 (after be1 now1 self u1) u2 =
           [ChatCompletionsCreate (model_name self)
              (message self @ [\<lparr>role = ''user'', content = u1\<rparr>, \<lparr>role = ''user'', content = u2\<rparr>])]"
  using assms
  by (simp add: requests_eq dispatch_requests at_dispatch_fields after_message after_ids succeeds_def)

theorem unanswered_input_stays_in_context_witness:
  "\<not> use_gemini local_bot
   \<and> raised failing_backend tick local_bot ''hello'' = Some (Exception ''rate limited'')
   \<and> requests stub_backend tick (after failing_backend tick local_bot ''hello'') ''again'' =
       [ChatCompletionsCreate ''llama3.2:8b''
          [system_message, \<lparr>role = ''user'', content = ''hello''\<rparr>, \<lparr>role = ''user'', content = ''again''\<rparr>]]"
proof -
  have g: "\<not> use_gemini local_bot" by (simp add: local_bot_fields)
  have h: "raised failing_backend tick local_bot ''hello'' = Some (Exception ''rate limited'')"
    by (simp add: failing_raised local_bot_fields)
  show ?thesis
    using g h unanswered_input_stays_in_context [OF g h, of stub_backend tick "''again''"]
    by (simp add: local_bot_fields)
qed

text \<open>
  The menu loop returns the first line that is a valid choice once stripped, with the
  lines after it; every line before it was refused. It ends without a choice exactly
  when no line is valid.
\<close>

theorem read_choice_takes_first_valid_line:
  "(read_choice ls = None \<longleftrightarrow> list_all (\<lambda>l. \<not> valid_choice l) ls)
   \<and> (read_choice ls = Some (c, rest) \<longleftrightarrow>
        (\<exists>skipped l. ls = skipped @ l # rest \<and> list_all (\<lambda>l. \<not> valid_choice l) skipped
                      \<and> valid_choice l \<and> c = strip l))"
proof (induction ls)
  case Nil
  show ?case by simp
next
  case (Cons x xs)
  show ?case
  proof (cases "valid_choice x")
    case True
    have "(\<exists>skipped l. x # xs = skipped @ l # rest \<and> list_all (\<lambda>l. \<not> valid_choice l) skipped
                      \<and> valid_choice l \<and> c = strip l) \<longleftrightarrow> (xs = rest \<and> c = strip x)"
    proof
      assume "\<exists>skipped l. x # xs = skipped @ l # rest \<and> list_all (\<lambda>l. \<not> valid_choice l) skipped
                      \<and> valid_choice l \<and> c = strip l"
      then obtain skipped l where *: "x # xs = skipped @ l # rest"
        "list_all (\<lambda>l. \<not> valid_choice l) skipped" "valid_choice l" "c = strip l" by blast
      with True have "skipped = []" by (cases skipped) auto
      with * show "xs = rest \<and> c = strip x" by simp
    next
      assume "xs = rest \<and> c = strip x"
      with True have "x # xs = [] @ x # rest \<and> list_all (\<lambda>l. \<not> valid_choice l) []
                      \<and> valid_choice x \<and> c = strip x" by simp
      then show "\<exists>skipped l. x # xs = skipped @ l # rest \<and> list_all (\<lambda>l. \<not> valid_choice l) skipped
                      \<and> valid_choice l \<and> c = strip l" by blast
    qed
    with True show ?thesis
      by (auto simp: valid_choice_def Let_def)
  next
    case False
    have "(\<exists>skipped l. x # xs = skipped @ l # rest \<and> list_all (\<lambda>l. \<not> valid_choice l) skipped
                      \<and> valid_choice l \<and> c = strip l) \<longleftrightarrow>
          (\<exists>skipped l. xs = skipped @ l # rest \<and> list_all (\<lambda>l. \<not> valid_choice l) skipped
                      \<and> valid_choice l \<and> c = strip l)"
    proof
      assume "\<exists>skipped l. x # xs = skipped @ l # rest \<and> list_all (\<lambda>l. \<not> valid_choice l) skipped
                      \<and> valid_choice l \<and> c = strip l"
      then obtain skipped l where *: "x # xs = skipped @ l # rest"
        "list_all (\<lambda>l. \<not> valid_choice l) skipped" "valid_choice l" "c = strip l" by blast
      with False obtain sk where "skipped = x # sk" by (cases skipped) auto
      with * have "xs = sk @ l # rest \<and> list_all (\<lambda>l. \<not> valid_choice l) sk
                      \<and> valid_choice l \<and> c = strip l" by simp
      then show "\<exists>skipped l. xs = skipped @ l # rest \<and> list_all (\<lambda>l. \<not> valid_choice l) skipped
                      \<and> valid_choice l \<and> c = strip l" by blast
    next
      assume "\<exists>skipped l. xs = skipped @ l # rest \<and> list_all (\<lambda>l. \<not> valid_choice l) skipped
                      \<and> valid_choice l \<and> c = strip l"
      then obtain skipped l where *: "xs = skipped @ l # rest"
        "list_all (\<lambda>l. \<not> valid_choice l) skipped" "valid_choice l" "c = strip l" by blast
      with False have "x # xs = (x # skipped) @ l # rest \<and> list_all (\<lambda>l. \<not> valid_choice l) (x # skipped)
                      \<and> valid_choice l \<and> c = strip l" by simp
      then show "\<exists>skipped l. x # xs = skipped @ l # rest \<and> list_all (\<lambda>l. \<not> valid_choice l) skipped
                      \<and> valid_choice l \<and> c = strip l" by blast
    qed
    with False Cons.IH show ?thesis
      by (simp add: valid_choice_def Let_def)
  qed
qed

text \<open>Two refused lines and then \<^verbatim>\<open>2\<close> between blanks.\<close>

theorem read_choice_example:
  "read_choice ['' x'', ''12'', '' 2 '', ''3''] = Some (''2'', [''3''])"
  by (simp add: strip_def isspace_def)

end
